theory Spec2Isabelle
  imports Complex_Main
begin

section \<open>The page that scroll-top.js runs in\<close>

text \<open>
  \<^verbatim>\<open>scroll-top.js\<close> is a browser script of nineteen lines. It keeps no data of its own
  besides one \<^verbatim>\<open>const\<close> binding; everything else it touches belongs to the host: the
  document's elements, their class lists, the viewport's scroll offset, the listener
  tables and the event object handed to a listener. The model therefore carries that part
  of the host as a record, and every host method the script calls is a function on it.

  DOM objects are referred to by identity. An element object, once obtained, stays alive
  as long as something refers to it, so the class list is a total function of the element.
\<close>

type_synonym element = nat
type_synonym event = nat

datatype event_target = Window | Document | Element element

text \<open>
  The script creates two function values: the declared function
  \<^verbatim>\<open>toggleScrollTop\<close> and the arrow function passed to the click registration.
\<close>

datatype callback = ToggleScrollTop | ClickArrow

datatype js_error = TypeError

text \<open>The object literal of line 12 to 15: \<^verbatim>\<open>{ top: 0, behavior: "smooth" }\<close>.\<close>

record scroll_to_options =
  opts_top :: real
  opts_behavior :: string

text \<open>
  Host methods invoked by the script, in the order of invocation. Property reads
  (\<^verbatim>\<open>window.scrollY\<close>, \<^verbatim>\<open>scrollTop.classList\<close>) are not method calls and are not logged.
\<close>

datatype host_call =
    GetElementById string
  | AddEventListener event_target string callback
  | ClassListAdd element string
  | ClassListRemove element string
  | PreventDefault event
  | ScrollTo scroll_to_options

text \<open>
  \<^item> \<open>ids\<close>: which element the document holds under an id;
  \<^item> \<open>classList\<close>: the class tokens of each element, in order;
  \<^item> \<open>scrollY\<close>: the viewport's vertical offset. JavaScript reads it as a finite double
    (never NaN) which may be fractional; comparing a finite double with 100 agrees with
    comparing the numbers they denote, so the offset is a \<^typ>\<open>real\<close>;
  \<^item> \<open>listeners\<close>: the registered listeners, in registration order;
  \<^item> \<open>cancelable\<close>: the \<^verbatim>\<open>cancelable\<close> attribute of each event object, fixed when the
    event is created. A click made by the user is cancelable; an event that a script
    constructs and dispatches is cancelable only if its constructor was told so;
  \<^item> \<open>defaultPrevented\<close>: the canceled flag of each event object. After the listeners have
    run, the host carries out the event's default action (for a click on an anchor:
    following the link) exactly when this flag is not set;
  \<^item> \<open>calls\<close>: the log of host method calls;
  \<^item> \<open>scrollTop\<close>: the script's binding of line 1 (\<open>None\<close> is \<^verbatim>\<open>null\<close>). Before
    line 1 has run the binding is uninitialised and nothing reads it.
\<close>

record page =
  ids :: "string \<rightharpoonup> element"
  classList :: "element \<Rightarrow> string list"
  scrollY :: real
  listeners :: "(event_target \<times> string \<times> callback) list"
  cancelable :: "event \<Rightarrow> bool"
  defaultPrevented :: "event \<Rightarrow> bool"
  calls :: "host_call list"
  scrollTop :: "element option"

subsection \<open>Host methods\<close>

definition getElementById :: "string \<Rightarrow> page \<Rightarrow> element option \<times> page" where
  "getElementById i p = (ids p i, p\<lparr>calls := calls p @ [GetElementById i]\<rparr>)"

text \<open>A listener already registered for the same target, type and callback is not added twice.\<close>

definition addEventListener :: "event_target \<Rightarrow> string \<Rightarrow> callback \<Rightarrow> page \<Rightarrow> page" where
  "addEventListener t ty cb p =
     p\<lparr>listeners :=
         (if (t, ty, cb) \<in> set (listeners p) then listeners p else listeners p @ [(t, ty, cb)]),
       calls := calls p @ [AddEventListener t ty cb]\<rparr>"

text \<open>\<^verbatim>\<open>classList.add\<close> appends a token that is not there yet; \<^verbatim>\<open>classList.remove\<close> deletes it.\<close>

definition classList_add :: "element \<Rightarrow> string \<Rightarrow> page \<Rightarrow> page" where
  "classList_add el tok p =
     p\<lparr>classList := (classList p)
         (el := (if tok \<in> set (classList p el) then classList p el else classList p el @ [tok])),
       calls := calls p @ [ClassListAdd el tok]\<rparr>"

definition classList_remove :: "element \<Rightarrow> string \<Rightarrow> page \<Rightarrow> page" where
  "classList_remove el tok p =
     p\<lparr>classList := (classList p)(el := removeAll tok (classList p el)),
       calls := calls p @ [ClassListRemove el tok]\<rparr>"

text \<open>
  \<^verbatim>\<open>preventDefault\<close> sets the event's canceled flag when the event is cancelable and the
  running listener is not passive; otherwise it does nothing to the event. The script
  registers its click listener without the passive option (line 10), so cancelability
  alone decides. A flag that is already set stays set.
\<close>

definition preventDefault :: "event \<Rightarrow> page \<Rightarrow> page" where
  "preventDefault e p =
     p\<lparr>defaultPrevented :=
         (defaultPrevented p)(e := (if cancelable p e then True else defaultPrevented p e)),
       calls := calls p @ [PreventDefault e]\<rparr>"

text \<open>
  \<^verbatim>\<open>window.scrollTo\<close> hands the request to the viewport and returns. The movement itself
  is the host's: it happens after the caller has returned and reaches the script only as
  later scroll notifications, so the call leaves \<open>scrollY\<close> as it is.
\<close>

definition scrollTo :: "scroll_to_options \<Rightarrow> page \<Rightarrow> page" where
  "scrollTo opts p = p\<lparr>calls := calls p @ [ScrollTo opts]\<rparr>"

section \<open>The script\<close>

text \<open>
  A run of script code either completes or throws; the page is as the code left it in
  both cases, since an uncaught exception does not undo what ran before it.
\<close>

datatype outcome = Completed page | Threw js_error page

fun state_of :: "outcome \<Rightarrow> page" where
  "state_of (Completed p) = p"
| "state_of (Threw err p) = p"

text \<open>Reading a property of \<^verbatim>\<open>null\<close> throws a TypeError.\<close>

fun property_of :: "element option \<Rightarrow> js_error + element" where
  "property_of None = Inl TypeError"
| "property_of (Some el) = Inr el"

text \<open>
  Lines 3 to 9:
  \<^verbatim>\<open>
  function toggleScrollTop() {
    if (scrollTop) {
      window.scrollY > 100
        ? scrollTop.classList.add("active")
        : scrollTop.classList.remove("active");
    }
  }
  \<close>
\<close>

definition toggleScrollTop :: "page \<Rightarrow> outcome" where
  "toggleScrollTop p =
     (if scrollTop p \<noteq> None then
        (if scrollY p > 100
         then (case property_of (scrollTop p) of
                 Inl err \<Rightarrow> Threw err p
               | Inr el \<Rightarrow> Completed (classList_add el ''active'' p))
         else (case property_of (scrollTop p) of
                 Inl err \<Rightarrow> Threw err p
               | Inr el \<Rightarrow> Completed (classList_remove el ''active'' p)))
      else Completed p)"

text \<open>
  Lines 10 to 16, the arrow function:
  \<^verbatim>\<open>
  (e) => {
    e.preventDefault();
    window.scrollTo({ top: 0, behavior: "smooth" });
  }
  \<close>
\<close>

definition click_handler :: "event \<Rightarrow> page \<Rightarrow> outcome" where
  "click_handler e p =
     Completed (scrollTo \<lparr>opts_top = 0, opts_behavior = ''smooth''\<rparr> (preventDefault e p))"

text \<open>
  The top level of the file, run once when the script is loaded:
  \<^verbatim>\<open>
  const scrollTop = document.getElementById("scroll-top");      // line 1
  scrollTop.addEventListener("click", (e) => { ... });          // line 10
  window.addEventListener("load", toggleScrollTop);             // line 18
  document.addEventListener("scroll", toggleScrollTop);         // line 19
  \<close>
  Line 10 reads a property of \<^verbatim>\<open>scrollTop\<close> with no test before it.
\<close>

definition scroll_top_js :: "page \<Rightarrow> outcome" where
  "scroll_top_js p0 =
     (case getElementById ''scroll-top'' p0 of
        (r, p1) \<Rightarrow>
          (let p2 = p1\<lparr>scrollTop := r\<rparr> in
           case property_of (scrollTop p2) of
             Inl err \<Rightarrow> Threw err p2
           | Inr el \<Rightarrow>
               Completed
                 (addEventListener Document ''scroll'' ToggleScrollTop
                   (addEventListener Window ''load'' ToggleScrollTop
                     (addEventListener (Element el) ''click'' ClickArrow p2)))))"

section \<open>Event delivery\<close>

fun invoke :: "callback \<Rightarrow> event \<Rightarrow> page \<Rightarrow> outcome" where
  "invoke ToggleScrollTop e p = toggleScrollTop p"
| "invoke ClickArrow e p = click_handler e p"

definition callbacks_for :: "page \<Rightarrow> event_target \<Rightarrow> string \<Rightarrow> callback list" where
  "callbacks_for p t ty =
     map (\<lambda>l. snd (snd l)) (filter (\<lambda>l. fst l = t \<and> fst (snd l) = ty) (listeners p))"

text \<open>
  The host runs the listeners registered on the target for the event's type, in
  registration order; an exception thrown by one is reported and the next one still runs.
\<close>

definition dispatch :: "event_target \<Rightarrow> string \<Rightarrow> event \<Rightarrow> page \<Rightarrow> page" where
  "dispatch t ty e p = fold (\<lambda>cb q. state_of (invoke cb e q)) (callbacks_for p t ty) p"

text \<open>
  What the host tells the page during a session: the load signal, a scroll notification
  (the viewport is then at the new offset), a click on an element.
\<close>

datatype notification = Load event | Scrolled real event | Clicked element event

fun routed :: "notification \<Rightarrow> page \<Rightarrow> callback list" where
  "routed (Load e) p = callbacks_for p Window ''load''"
| "routed (Scrolled y e) p = callbacks_for p Document ''scroll''"
| "routed (Clicked el e) p = callbacks_for p (Element el) ''click''"

fun notify :: "notification \<Rightarrow> page \<Rightarrow> page" where
  "notify (Load e) p = dispatch Window ''load'' e p"
| "notify (Scrolled y e) p = dispatch Document ''scroll'' e (p\<lparr>scrollY := y\<rparr>)"
| "notify (Clicked el e) p = dispatch (Element el) ''click'' e p"

definition session :: "notification list \<Rightarrow> page \<Rightarrow> page" where
  "session ns p = fold notify ns p"

section \<open>Vocabulary of the statements\<close>

text \<open>The host calls made between two states of the page.\<close>

definition issued :: "page \<Rightarrow> page \<Rightarrow> host_call list" where
  "issued p q = drop (length (calls p)) (calls q)"

fun is_scroll_command :: "host_call \<Rightarrow> bool" where
  "is_scroll_command (ScrollTo opts) = True"
| "is_scroll_command c = False"

fun is_suppression :: "host_call \<Rightarrow> bool" where
  "is_suppression (PreventDefault e) = True"
| "is_suppression c = False"

fun is_lookup :: "host_call \<Rightarrow> bool" where
  "is_lookup (GetElementById i) = True"
| "is_lookup c = False"

fun is_registration :: "host_call \<Rightarrow> bool" where
  "is_registration (AddEventListener t ty cb) = True"
| "is_registration c = False"

text \<open>
  Example pages: one holding the control as element 7, one without it; every event
  they will see is a cancelable one. The third is the first with a click event, number 3,
  that a script has constructed without asking for it to be cancelable, as
  \<^verbatim>\<open>new MouseEvent("click")\<close> does.
\<close>

definition page_with_control :: "real \<Rightarrow> string list \<Rightarrow> page" where
  "page_with_control y cls =
     \<lparr>ids = [''scroll-top'' \<mapsto> 7], classList = (\<lambda>el. if el = 7 then cls else []),
      scrollY = y, listeners = [], cancelable = (\<lambda>e. True),
      defaultPrevented = (\<lambda>e. False), calls = [], scrollTop = None\<rparr>"

definition page_without_control :: page where
  "page_without_control =
     \<lparr>ids = Map.empty, classList = (\<lambda>el. []), scrollY = 0, listeners = [],
      cancelable = (\<lambda>e. True), defaultPrevented = (\<lambda>e. False), calls = [],
      scrollTop = None\<rparr>"


section \<open>Basic facts\<close>

lemma toggleScrollTop_absent: "scrollTop p = None \<Longrightarrow> toggleScrollTop p = Completed p"
  by (simp add: toggleScrollTop_def)

lemma toggleScrollTop_present:
  "scrollTop p = Some el \<Longrightarrow>
   toggleScrollTop p =
     Completed (if scrollY p > 100 then classList_add el ''active'' p
                else classList_remove el ''active'' p)"
  by (simp add: toggleScrollTop_def)

lemmas host_defs = getElementById_def addEventListener_def classList_add_def
  classList_remove_def preventDefault_def scrollTo_def

lemma invoke_completes: "\<exists>q. invoke cb e p = Completed q"
  by (cases cb; cases "scrollTop p") (auto simp: toggleScrollTop_def click_handler_def)

lemma invoke_scrollTop: "scrollTop (state_of (invoke cb e p)) = scrollTop p"
  by (cases cb; cases "scrollTop p") (auto simp: toggleScrollTop_def click_handler_def host_defs)

lemma invoke_listeners: "listeners (state_of (invoke cb e p)) = listeners p"
  by (cases cb; cases "scrollTop p") (auto simp: toggleScrollTop_def click_handler_def host_defs)

lemma invoke_calls:
  "\<exists>cs. calls (state_of (invoke cb e p)) = calls p @ cs \<and> filter is_lookup cs = []
     \<and> filter is_registration cs = []"
  by (cases cb; cases "scrollTop p") (auto simp: toggleScrollTop_def click_handler_def host_defs)

lemma fold_invoke_scrollTop:
  "scrollTop (fold (\<lambda>cb q. state_of (invoke cb e q)) cbs p) = scrollTop p"
  by (induction cbs arbitrary: p) (simp_all add: invoke_scrollTop)

lemma fold_invoke_listeners:
  "listeners (fold (\<lambda>cb q. state_of (invoke cb e q)) cbs p) = listeners p"
  by (induction cbs arbitrary: p) (simp_all add: invoke_listeners)

lemma fold_invoke_calls:
  "\<exists>cs. calls (fold (\<lambda>cb q. state_of (invoke cb e q)) cbs p) = calls p @ cs
     \<and> filter is_lookup cs = [] \<and> filter is_registration cs = []"
proof (induction cbs arbitrary: p)
  case Nil
  show ?case by simp
next
  case (Cons cb cbs)
  obtain c1 where c1: "calls (state_of (invoke cb e p)) = calls p @ c1"
    "filter is_lookup c1 = []" "filter is_registration c1 = []"
    using invoke_calls by blast
  obtain c2 where c2:
    "calls (fold (\<lambda>cb q. state_of (invoke cb e q)) cbs (state_of (invoke cb e p)))
       = calls (state_of (invoke cb e p)) @ c2"
    "filter is_lookup c2 = []" "filter is_registration c2 = []"
    using Cons.IH by blast
  show ?case
    by (rule exI [of _ "c1 @ c2"]) (simp add: c1 c2)
qed

lemma notify_scrollTop: "scrollTop (notify n p) = scrollTop p"
  by (cases n) (simp_all add: dispatch_def fold_invoke_scrollTop)

lemma notify_listeners: "listeners (notify n p) = listeners p"
  by (cases n) (simp_all add: dispatch_def fold_invoke_listeners)

lemma notify_calls:
  "\<exists>cs. calls (notify n p) = calls p @ cs \<and> filter is_lookup cs = []
     \<and> filter is_registration cs = []"
proof (cases n)
  case (Load e)
  then show ?thesis using fold_invoke_calls [of e _ p] by (simp add: dispatch_def)
next
  case (Scrolled y e)
  then show ?thesis
    using fold_invoke_calls [of e _ "p\<lparr>scrollY := y\<rparr>"] by (simp add: dispatch_def)
next
  case (Clicked el e)
  then show ?thesis using fold_invoke_calls [of e _ p] by (simp add: dispatch_def)
qed

lemma session_scrollTop: "scrollTop (session ns p) = scrollTop p"
  unfolding session_def by (induction ns arbitrary: p) (simp_all add: notify_scrollTop)

lemma session_listeners: "listeners (session ns p) = listeners p"
  unfolding session_def by (induction ns arbitrary: p) (simp_all add: notify_listeners)

lemma session_calls:
  "\<exists>cs. calls (session ns p) = calls p @ cs \<and> filter is_lookup cs = []
     \<and> filter is_registration cs = []"
  unfolding session_def
proof (induction ns arbitrary: p)
  case Nil
  show ?case by simp
next
  case (Cons n ns)
  obtain c1 where c1: "calls (notify n p) = calls p @ c1"
    "filter is_lookup c1 = []" "filter is_registration c1 = []"
    using notify_calls by blast
  obtain c2 where c2: "calls (fold notify ns (notify n p)) = calls (notify n p) @ c2"
    "filter is_lookup c2 = []" "filter is_registration c2 = []"
    using Cons.IH by blast
  show ?case
    by (rule exI [of _ "c1 @ c2"]) (simp add: c1 c2)
qed

lemma issued_append: "calls q = calls p @ cs \<Longrightarrow> issued p q = cs"
  by (simp add: issued_def)

section \<open>Facts about the top level\<close>

lemma scroll_top_js_absent:
  "ids p ''scroll-top'' = None \<Longrightarrow>
   scroll_top_js p =
     Threw TypeError (p\<lparr>calls := calls p @ [GetElementById ''scroll-top''], scrollTop := None\<rparr>)"
  by (simp add: scroll_top_js_def getElementById_def)

lemma scroll_top_js_present:
  "ids p ''scroll-top'' = Some el \<Longrightarrow>
   scroll_top_js p =
     Completed
       (addEventListener Document ''scroll'' ToggleScrollTop
         (addEventListener Window ''load'' ToggleScrollTop
           (addEventListener (Element el) ''click'' ClickArrow
             (p\<lparr>calls := calls p @ [GetElementById ''scroll-top''], scrollTop := Some el\<rparr>))))"
  by (simp add: scroll_top_js_def getElementById_def)

lemma scroll_top_js_scrollTop: "scrollTop (state_of (scroll_top_js p)) = ids p ''scroll-top''"
  by (cases "ids p ''scroll-top''")
    (simp_all add: scroll_top_js_absent scroll_top_js_present addEventListener_def)

lemma scroll_top_js_scrollY: "scrollY (state_of (scroll_top_js p)) = scrollY p"
  by (cases "ids p ''scroll-top''")
    (simp_all add: scroll_top_js_absent scroll_top_js_present addEventListener_def)

lemma scroll_top_js_classList: "classList (state_of (scroll_top_js p)) = classList p"
  by (cases "ids p ''scroll-top''")
    (simp_all add: scroll_top_js_absent scroll_top_js_present addEventListener_def)




lemma scroll_top_js_calls:
  "\<exists>cs. calls (state_of (scroll_top_js p)) = calls p @ cs
     \<and> filter is_lookup cs = [GetElementById ''scroll-top'']"
  by (cases "ids p ''scroll-top''")
    (simp_all add: scroll_top_js_absent scroll_top_js_present addEventListener_def)

lemma scroll_top_js_listeners:
  "ids p ''scroll-top'' = Some el \<Longrightarrow> listeners p = [] \<Longrightarrow>
   listeners (state_of (scroll_top_js p)) =
     [(Element el, ''click'', ClickArrow), (Window, ''load'', ToggleScrollTop),
      (Document, ''scroll'', ToggleScrollTop)]"
  by (simp add: scroll_top_js_present addEventListener_def)

text \<open>
  When the document holds the control and no listener was registered before, the three
  registrations of lines 10, 18 and 19 stay in force for the whole session: the load
  signal and every scroll notification run \<^verbatim>\<open>toggleScrollTop\<close> once, a click on the
  control runs the arrow function once, and nothing else runs either of them.
\<close>

lemma wiring_with_control:
  assumes "ids p0 ''scroll-top'' = Some el" and "listeners p0 = []"
  shows "routed (Load e) (session ns (state_of (scroll_top_js p0))) = [ToggleScrollTop]"
    and "routed (Scrolled y e) (session ns (state_of (scroll_top_js p0))) = [ToggleScrollTop]"
    and "routed (Clicked el' e) (session ns (state_of (scroll_top_js p0))) =
           (if el' = el then [ClickArrow] else [])"
  using assms
  by (simp_all add: callbacks_for_def session_listeners scroll_top_js_listeners)

section \<open>The claims\<close>

text \<open>
  Claim C1 (initialization when the control is not found). The claim asks that the whole
  top level, click registration included, completes without throwing when the lookup of
  line 1 returns no element. The code does otherwise: on a page that has no element with
  the id \<^verbatim>\<open>scroll-top\<close>, line 10 reads \<^verbatim>\<open>addEventListener\<close> from \<^verbatim>\<open>null\<close> and throws a
  TypeError; the only host call made is the lookup, and lines 18 and 19 are not reached.
  \<^verbatim>\<open>toggleScrollTop\<close> tests the same binding before it uses it; line 10 does not.
\<close>

theorem initialization_throws_without_control:
  "scroll_top_js page_without_control =
     Threw TypeError (page_without_control\<lparr>calls := [GetElementById ''scroll-top'']\<rparr>)"
  by (simp add: scroll_top_js_def getElementById_def page_without_control_def)

text \<open>
  Claim C2 (threshold law). When the control reference exists, a call of
  \<^verbatim>\<open>toggleScrollTop\<close> completes, and afterwards the control's class list holds
  \<^verbatim>\<open>active\<close> exactly when the scroll offset is greater than 100, whatever the class
  list was before. At the offset 100 itself the control is left inactive (the witness).
\<close>

theorem toggleScrollTop_threshold:
  "scrollTop p = Some el \<Longrightarrow>
   \<exists>q. toggleScrollTop p = Completed q \<and>
       (''active'' \<in> set (classList q el)) = (100 < scrollY p)"
  by (simp add: toggleScrollTop_present classList_add_def classList_remove_def)

theorem toggleScrollTop_threshold_witness:
  "scrollTop (state_of (scroll_top_js (page_with_control 100 [''active'']))) = Some 7 \<and>
   scrollY (state_of (scroll_top_js (page_with_control 100 [''active'']))) = 100 \<and>
   ''active'' \<in> set (classList (state_of (scroll_top_js (page_with_control 100 [''active'']))) 7) \<and>
   ''active'' \<notin> set (classList (state_of (toggleScrollTop
       (state_of (scroll_top_js (page_with_control 100 [''active''])))))  7)"
proof -
  let ?p = "state_of (scroll_top_js (page_with_control 100 [''active'']))"
  have ids: "ids (page_with_control 100 [''active'']) ''scroll-top'' = Some 7"
    by (simp add: page_with_control_def)
  have st: "scrollTop ?p = Some 7"
    by (simp add: scroll_top_js_scrollTop ids)
  have y: "scrollY ?p = 100"
    by (simp add: scroll_top_js_scrollY page_with_control_def)
  have before: "''active'' \<in> set (classList ?p 7)"
    by (simp add: scroll_top_js_classList page_with_control_def)
  from toggleScrollTop_threshold [OF st] obtain q where
    q: "toggleScrollTop ?p = Completed q"
       "(''active'' \<in> set (classList q 7)) = (100 < scrollY ?p)"
    by blast
  from q y have "''active'' \<notin> set (classList (state_of (toggleScrollTop ?p)) 7)"
    by simp
  with st y before show ?thesis by simp
qed

text \<open>
  Claim C3 (activation effect). For every event and every state of the page, hence at any
  scroll offset, one run of the click handler completes and makes exactly two host calls:
  one \<^verbatim>\<open>scrollTo\<close>, with top 0 and smooth behaviour, and one \<^verbatim>\<open>preventDefault\<close>, on the
  event it was given. There is no other call, so no other viewport command.
\<close>

theorem click_handler_commands:
  "\<exists>q. click_handler e p = Completed q \<and> calls q = calls p @ issued p q \<and>
       filter is_scroll_command (issued p q) =
         [ScrollTo \<lparr>opts_top = 0, opts_behavior = ''smooth''\<rparr>] \<and>
       filter is_suppression (issued p q) = [PreventDefault e] \<and>
       length (issued p q) = 2"
  by (simp add: click_handler_def scrollTo_def preventDefault_def issued_def)

text \<open>
  Claim C4 (idempotence). A call of \<^verbatim>\<open>toggleScrollTop\<close> leaves the scroll offset as it
  is, and a second call right after it, at that same offset, leaves every class list
  exactly as the first call left it. This holds for every offset and every starting
  class list, with or without the control.
\<close>

theorem toggleScrollTop_idempotent:
  "scrollY (state_of (toggleScrollTop p)) = scrollY p \<and>
   classList (state_of (toggleScrollTop (state_of (toggleScrollTop p)))) =
     classList (state_of (toggleScrollTop p))"
proof (cases "scrollTop p")
  case None
  then show ?thesis by (simp add: toggleScrollTop_absent)
next
  case (Some el)
  then show ?thesis
    by (simp add: toggleScrollTop_present classList_add_def classList_remove_def)
qed

text \<open>
  Claim C5 (no-op without the control). When the binding is \<^verbatim>\<open>null\<close>, a call of
  \<^verbatim>\<open>toggleScrollTop\<close> completes (it does not throw), returns the page exactly as it
  was, and makes no host call.
\<close>

theorem toggleScrollTop_absent_noop:
  "scrollTop p = None \<Longrightarrow>
   toggleScrollTop p = Completed p \<and> issued p (state_of (toggleScrollTop p)) = []"
  by (simp add: toggleScrollTop_def issued_def)

theorem toggleScrollTop_absent_noop_witness:
  "scrollTop (state_of (scroll_top_js page_without_control)) = None \<and>
   toggleScrollTop (state_of (scroll_top_js page_without_control)) =
     Completed (state_of (scroll_top_js page_without_control))"
proof -
  have st: "scrollTop (state_of (scroll_top_js page_without_control)) = None"
    by (simp add: scroll_top_js_scrollTop page_without_control_def)
  from toggleScrollTop_absent_noop [OF st] st show ?thesis by simp
qed




text \<open>
  Claim C7 (wiring). The claim asks that \<^verbatim>\<open>toggleScrollTop\<close> runs once after the load
  signal and once per scroll notification, in every session. On a page without the
  control the exception of line 10 ends the script before lines 18 and 19, so no listener
  is ever registered: whatever the host delivers afterwards, no callback of the script
  runs for any notification, the load signal and scroll notifications included. (With the
  control present the wiring is as claimed: \<open>wiring_with_control\<close>.)
\<close>

theorem wiring_missing_without_control:
  "listeners (session ns (state_of (scroll_top_js page_without_control))) = [] \<and>
   routed n (session ns (state_of (scroll_top_js page_without_control))) = []"
proof -
  have "listeners (session ns (state_of (scroll_top_js page_without_control))) = []"
    by (simp add: session_listeners scroll_top_js_absent page_without_control_def)
  then show ?thesis
    by (cases n) (simp_all add: callbacks_for_def)
qed

text \<open>
  Claim C8 (the binding is stable). The top level sets the binding to what the document
  holds under \<^verbatim>\<open>scroll-top\<close>. Neither \<^verbatim>\<open>toggleScrollTop\<close> nor the click handler changes
  it, and after any sequence of load, scroll and click notifications, whichever listeners
  the page has, it is still the value line 1 gave it. From the start of the script to the
  end of the session exactly one lookup is made, the one of line 1; this holds also when
  the script stops at line 10.
\<close>

theorem scrollTop_resolved_once:
  "scrollTop (state_of (scroll_top_js p0)) = ids p0 ''scroll-top'' \<and>
   scrollTop (state_of (toggleScrollTop p)) = scrollTop p \<and>
   scrollTop (state_of (click_handler e p)) = scrollTop p \<and>
   scrollTop (session ns (state_of (scroll_top_js p0))) = scrollTop (state_of (scroll_top_js p0)) \<and>
   filter is_lookup (issued p0 (session ns (state_of (scroll_top_js p0)))) =
     [GetElementById ''scroll-top'']"
proof -
  obtain c1 where c1: "calls (state_of (scroll_top_js p0)) = calls p0 @ c1"
    "filter is_lookup c1 = [GetElementById ''scroll-top'']"
    using scroll_top_js_calls by blast
  obtain c2 where c2:
    "calls (session ns (state_of (scroll_top_js p0))) = calls (state_of (scroll_top_js p0)) @ c2"
    "filter is_lookup c2 = []"
    using session_calls by blast
  have "issued p0 (session ns (state_of (scroll_top_js p0))) = c1 @ c2"
    by (rule issued_append) (simp add: c1 c2)
  moreover have "scrollTop (state_of (toggleScrollTop p)) = scrollTop p"
    using invoke_scrollTop [of ToggleScrollTop e p] by simp
  moreover have "scrollTop (state_of (click_handler e p)) = scrollTop p"
    using invoke_scrollTop [of ClickArrow e p] by simp
  ultimately show ?thesis
    by (simp add: c1 c2 scroll_top_js_scrollTop session_scrollTop)
qed

text \<open>
  Claim C9 (frame of \<^verbatim>\<open>toggleScrollTop\<close>). A call completes and changes nothing but the
  token \<^verbatim>\<open>active\<close> in the class list of the control: the scroll offset, the listener
  table, the document's ids, the events' flags and the binding are as before; the class
  list of every other element is as before; in every class list the tokens other than
  \<^verbatim>\<open>active\<close> are as before, in the same order; and among the host calls made there is no
  \<^verbatim>\<open>scrollTo\<close> and no listener registration.
\<close>

theorem toggleScrollTop_frame:
  "\<exists>q. toggleScrollTop p = Completed q \<and>
       scrollY q = scrollY p \<and> listeners q = listeners p \<and> ids q = ids p \<and>
       cancelable q = cancelable p \<and>
       defaultPrevented q = defaultPrevented p \<and> scrollTop q = scrollTop p \<and>
       (\<forall>el. scrollTop p \<noteq> Some el \<longrightarrow> classList q el = classList p el) \<and>
       (\<forall>el. removeAll ''active'' (classList q el) = removeAll ''active'' (classList p el)) \<and>
       calls q = calls p @ issued p q \<and>
       filter is_scroll_command (issued p q) = [] \<and>
       filter is_registration (issued p q) = []"
proof (cases "scrollTop p")
  case None
  then show ?thesis by (simp add: toggleScrollTop_absent issued_def)
next
  case (Some el)
  then show ?thesis
    by (simp add: toggleScrollTop_present classList_add_def classList_remove_def issued_def)
qed

theorem toggleScrollTop_frame_witness:
  "\<exists>q. toggleScrollTop (state_of (scroll_top_js (page_with_control 150 [''btn'']))) = Completed q \<and>
       scrollY q = 150 \<and> classList q 8 = [] \<and> removeAll ''active'' (classList q 7) = [''btn''] \<and>
       listeners q =
         [(Element 7, ''click'', ClickArrow), (Window, ''load'', ToggleScrollTop),
          (Document, ''scroll'', ToggleScrollTop)]"
proof -
  let ?start = "page_with_control 150 [''btn'']"
  let ?p = "state_of (scroll_top_js ?start)"
  have ids: "ids ?start ''scroll-top'' = Some 7" and none: "listeners ?start = []"
    by (simp_all add: page_with_control_def)
  have st: "scrollTop ?p = Some 7"
    by (simp add: scroll_top_js_scrollTop ids)
  have y: "scrollY ?p = 150"
    by (simp add: scroll_top_js_scrollY page_with_control_def)
  have cl: "classList ?p 8 = []" "classList ?p 7 = [''btn'']"
    by (simp_all add: scroll_top_js_classList page_with_control_def)
  have ls: "listeners ?p =
      [(Element 7, ''click'', ClickArrow), (Window, ''load'', ToggleScrollTop),
       (Document, ''scroll'', ToggleScrollTop)]"
    by (rule scroll_top_js_listeners [OF ids none])
  from toggleScrollTop_frame [of ?p] obtain q where
    q: "toggleScrollTop ?p = Completed q" "scrollY q = scrollY ?p" "listeners q = listeners ?p"
       "\<forall>el. scrollTop ?p \<noteq> Some el \<longrightarrow> classList q el = classList ?p el"
       "\<forall>el. removeAll ''active'' (classList q el) = removeAll ''active'' (classList ?p el)"
    by blast
  from q(4) st have "classList q 8 = classList ?p 8" by simp
  moreover from q(5) have "removeAll ''active'' (classList q 7) = removeAll ''active'' (classList ?p 7)"
    by blast
  ultimately show ?thesis
    using q(1,2,3) y cl ls by simp
qed

text \<open>
  Claim C10 (frame of the click handler). A run of the click handler completes and leaves
  the class list of every element, the control's included, exactly as it was; it leaves
  the scroll offset read by \<^verbatim>\<open>toggleScrollTop\<close> as it was too. This holds in every state
  of the page, so at any scroll offset.
\<close>

theorem click_handler_keeps_classList:
  "\<exists>q. click_handler e p = Completed q \<and> classList q = classList p \<and> scrollY q = scrollY p"
  by (simp add: click_handler_def scrollTo_def preventDefault_def)

end
